theory Spec2Isabelle
  imports Complex_Main "HOL-Library.AList"
begin

section \<open>Data model\<close>

text \<open>
  Identifiers, e-mail addresses and the like are JavaScript strings. JavaScript numbers
  (amounts, costs, energy, coordinates) are modelled as real numbers: the rounding of
  IEEE doubles is not part of this development.
\<close>

type_synonym ident = string

datatype trpc_code =
  UNAUTHORIZED | FORBIDDEN | NOT_FOUND | BAD_REQUEST | CONFLICT | INTERNAL_SERVER_ERROR

text \<open>
  What a handler can throw: a \<open>TRPCError\<close> with its code, an error of the Prisma client
  (no row for a unique \<open>where\<close>, a violated unique constraint, a raw query that the
  database rejects), an error of the payment provider's client, or a plain JavaScript
  \<open>Error\<close>.
\<close>

datatype error =
  TRPCError trpc_code
  | PrismaRecordNotFound
  | PrismaUniqueConstraint
  | PrismaRawQueryFailed
  | StripeError
  | JsError string

datatype port_status = AVAILABLE | OCCUPIED | RESERVED | OUT_OF_ORDER | MAINTENANCE

datatype connector_type = TYPE1 | TYPE2 | CCS1 | CCS2 | CHAdeMO | TESLA | NACS

datatype session_status =
  INITIATED | ACTIVE | COMPLETING | COMPLETED_SESSION | ERROR_SESSION | CANCELLED

record chargingSession =
  session_id :: ident
  session_portId :: ident
  session_userId :: ident
  session_status :: session_status
  cost :: "real option"
  energyUsed :: "real option"

record chargingPort =
  port_id :: ident
  port_stationId :: ident
  portNumber :: nat
  connectorType :: connector_type
  powerOutput :: real
  port_status :: port_status

record station =
  station_id :: ident
  station_tenantId :: ident
  station_name :: string
  address :: string
  latitude :: real
  longitude :: real
  is_active :: bool

text \<open>The part of the request context that \<open>authMiddleware\<close> fills in (\<open>ctx.user\<close>).\<close>

record ctx_user =
  user_id :: ident
  user_tenantId :: ident
  user_role :: string

datatype tenant_type = STATION_OPERATOR | MANUFACTURER | NETWORK_PROVIDER | ENTERPRISE

record tenant =
  tenant_id :: ident
  tenant_name :: string
  tenant_type :: tenant_type
  tenant_isActive :: bool
  tenant_domain :: "string option"

record user =
  u_id :: ident
  u_email :: string
  u_password :: "string option"
  u_firstName :: string
  u_lastName :: string
  u_phone :: "string option"
  u_role :: string
  u_tenantId :: ident
  u_isActive :: bool

record booking =
  booking_id :: ident
  totalCost :: "real option"

datatype payment_status = PENDING | COMPLETED | FAILED | REFUNDED

text \<open>A value of the JSON object kept in \<open>payment.metadata\<close>.\<close>

datatype meta_value = MStr string | MNum real

record payment =
  payment_id :: ident
  amount :: real
  currency :: string
  pay_status :: payment_status
  pay_method :: string
  stripePaymentId :: "string option"
  payment_userId :: ident
  sessionId :: "ident option"
  bookingId :: "ident option"
  metadata :: "(string \<times> meta_value) list"

text \<open>The tables the handlers read and write, each in storage order.\<close>

record db =
  tenants :: "tenant list"
  users :: "user list"
  stations :: "station list"
  chargingPorts :: "chargingPort list"
  sessions :: "chargingSession list"
  bookings :: "booking list"
  payments :: "payment list"

section \<open>The storage client\<close>

text \<open>
  \<open>update({ where, data })\<close> of the Prisma client on one table: the row that the unique
  \<open>where\<close> selects is replaced and returned together with the new table; \<open>None\<close>
  stands for the client's error when no row matches.
\<close>

fun update_first :: "('a \<Rightarrow> bool) \<Rightarrow> ('a \<Rightarrow> 'a) \<Rightarrow> 'a list \<Rightarrow> ('a \<times> 'a list) option" where
  "update_first P f [] = None"
| "update_first P f (x # xs) =
     (if P x then Some (f x, f x # xs)
      else (case update_first P f xs of
              None \<Rightarrow> None
            | Some (y, ys) \<Rightarrow> Some (y, x # ys)))"

text \<open>
  \<open>$transaction(async (tx) => ...)\<close>: the callback runs on the transaction client; when it
  throws, the transaction is rolled back and the error is rethrown, otherwise its
  writes are committed.
\<close>

definition transaction :: "(db \<Rightarrow> (error + 'a) \<times> db) \<Rightarrow> db \<Rightarrow> (error + 'a) \<times> db" where
  "transaction body d =
     (case body d of
        (Inl e, _) \<Rightarrow> (Inl e, d)
      | (Inr v, d') \<Rightarrow> (Inr v, d'))"

text \<open>JavaScript truthiness of an optional string: \<open>undefined\<close>, \<open>null\<close> and \<open>''\<close> are falsy.\<close>

definition truthy :: "string option \<Rightarrow> bool" where
  "truthy x = (case x of None \<Rightarrow> False | Some s \<Rightarrow> s \<noteq> [])"

section \<open>\<open>utils/jwt.ts\<close>\<close>

text \<open>
  The payload handed to \<open>signJWT\<close> (\<open>Omit<JWTPayload, 'iat' | 'exp'>\<close>) and the decoded
  \<open>JWTPayload\<close>, which extends it with the two timestamps, in seconds.
\<close>

record sign_payload =
  userId :: ident
  tenantId :: ident
  role :: string

record JWTPayload = sign_payload +
  iat :: "nat option"
  expires :: "nat option"

text \<open>
  A token of the \<open>jsonwebtoken\<close> library, without its encoding as a string: the claims,
  the issuer, and the secret its signature was computed with. A string that is not a
  token is \<open>Malformed\<close>.
\<close>

datatype token = Jwt JWTPayload string string | Malformed

definition DEFAULT_SECRET :: string where
  "DEFAULT_SECRET = ''your-secret-key''"

text \<open>\<open>process.env.JWT_SECRET || 'your-secret-key'\<close>.\<close>

definition JWT_SECRET :: "string option \<Rightarrow> string" where
  "JWT_SECRET env = (if truthy env then the env else DEFAULT_SECRET)"

text \<open>
  \<open>jwt.sign(payload, secret, { expiresIn: '24h', issuer })\<close> at time \<open>now\<close>: the payload has
  no \<open>iat\<close> and no \<open>exp\<close>, so the library stamps \<open>iat = now\<close> and \<open>exp = now + 86400\<close>.
\<close>

definition jwt_sign :: "nat \<Rightarrow> 'a sign_payload_scheme \<Rightarrow> string \<Rightarrow> nat \<Rightarrow> string \<Rightarrow> token" where
  "jwt_sign now p secret expiresIn issuer =
     Jwt \<lparr>userId = userId p, tenantId = tenantId p, role = role p,
          iat = Some now, expires = Some (now + expiresIn)\<rparr> issuer secret"

text \<open>
  \<open>jwt.verify(token, secret)\<close> at time \<open>now\<close>: throws on a malformed token, on a signature
  made with another secret, and on a token whose \<open>exp\<close> is not after \<open>now\<close>; otherwise
  returns the decoded claims. No issuer is asked for, so none is checked.
\<close>

definition jwt_verify :: "nat \<Rightarrow> token \<Rightarrow> string \<Rightarrow> error + JWTPayload" where
  "jwt_verify now t secret =
     (case t of
        Malformed \<Rightarrow> Inl (JsError ''JsonWebTokenError'')
      | Jwt claims issuer signed_with \<Rightarrow>
          (if signed_with \<noteq> secret then Inl (JsError ''JsonWebTokenError'')
           else (case expires claims of
                   Some e \<Rightarrow> if e \<le> now then Inl (JsError ''TokenExpiredError'') else Inr claims
                 | None \<Rightarrow> Inr claims)))"

definition signJWT :: "string option \<Rightarrow> nat \<Rightarrow> 'a sign_payload_scheme \<Rightarrow> token" where
  "signJWT env now payload = jwt_sign now payload (JWT_SECRET env) (24 * 60 * 60) ''ev-platform''"

definition verifyJWT :: "string option \<Rightarrow> nat \<Rightarrow> token \<Rightarrow> error + JWTPayload" where
  "verifyJWT env now t = jwt_verify now t (JWT_SECRET env)"

definition refreshToken :: "string option \<Rightarrow> nat \<Rightarrow> token \<Rightarrow> error + token" where
  "refreshToken env now oldToken =
     (case verifyJWT env now oldToken of
        Inl _ \<Rightarrow> Inl (JsError ''Invalid token for refresh'')
      | Inr decoded \<Rightarrow>
          Inr (signJWT env now
                 \<lparr>userId = userId decoded, tenantId = tenantId decoded, role = role decoded\<rparr>))"

section \<open>\<open>trpc.ts\<close>: the middlewares\<close>

text \<open>
  \<open>authMiddleware\<close>: the bearer token of the request (\<open>None\<close> when the header is absent or
  empty), verified; the user it names is read from the database and must be active.
  Every failure inside the \<open>try\<close> block is rethrown as \<open>UNAUTHORIZED\<close>. The context's user
  is taken from the database row, not from the token.
\<close>

definition authMiddleware :: "string option \<Rightarrow> nat \<Rightarrow> token option \<Rightarrow> db \<Rightarrow> error + ctx_user" where
  "authMiddleware env now authorization d =
     (case authorization of
        None \<Rightarrow> Inl (TRPCError UNAUTHORIZED)
      | Some t \<Rightarrow>
          (case verifyJWT env now t of
             Inl _ \<Rightarrow> Inl (TRPCError UNAUTHORIZED)
           | Inr decoded \<Rightarrow>
               (case find (\<lambda>u. u_id u = userId decoded) (users d) of
                  None \<Rightarrow> Inl (TRPCError UNAUTHORIZED)
                | Some u \<Rightarrow>
                    if \<not> u_isActive u then Inl (TRPCError UNAUTHORIZED)
                    else Inr \<lparr>user_id = u_id u, user_tenantId = u_tenantId u, user_role = u_role u\<rparr>)))"

text \<open>
  \<open>protectedProcedure = t.procedure.use(authMiddleware)\<close>: the resolver runs with the
  authenticated user, or the request fails with the middleware's error and the
  database untouched.
\<close>

definition protectedProcedure ::
  "(ctx_user \<Rightarrow> 'i \<Rightarrow> db \<Rightarrow> (error + 'o) \<times> db) \<Rightarrow>
   string option \<Rightarrow> nat \<Rightarrow> token option \<Rightarrow> 'i \<Rightarrow> db \<Rightarrow> (error + 'o) \<times> db" where
  "protectedProcedure resolver env now authorization input d =
     (case authMiddleware env now authorization d of
        Inl e \<Rightarrow> (Inl e, d)
      | Inr u \<Rightarrow> resolver u input d)"

text \<open>
  \<open>tenantMiddleware\<close> replaces \<open>ctx.prisma\<close> by a proxy. A model delegate
  (\<open>prisma.station\<close>, ...) is an object whose methods are looked up by name; a call
  takes one argument object, of which the \<open>where\<close> filter and the \<open>data\<close> are modelled,
  both as objects with string values in insertion order.
\<close>

type_synonym row = "(string \<times> string) list"

record query_args =
  whereArg :: "row option"
  dataArg :: row

definition READ_METHODS :: "string list" where
  "READ_METHODS = [''findMany'', ''findFirst'', ''findUnique'', ''count'', ''aggregate'']"

text \<open>
  \<open>if (args.where) { args.where.tenantId = tenantId } else { args.where = { tenantId } }\<close>:
  assigning a property replaces its value or appends the property.
\<close>

definition addTenantFilter :: "ident \<Rightarrow> query_args \<Rightarrow> query_args" where
  "addTenantFilter tid args =
     (case whereArg args of
        Some w \<Rightarrow> args\<lparr>whereArg := Some (AList.update ''tenantId'' tid w)\<rparr>
      | None \<Rightarrow> args\<lparr>whereArg := Some [(''tenantId'', tid)]\<rparr>)"

text \<open>
  The inner proxy's \<open>get\<close> trap, applied to the delegate \<open>modelTarget\<close> and the method name
  \<open>modelProp\<close>: a wrapper for the five listed methods, the original method for every
  other name.
\<close>

definition tenantProxy ::
  "ident \<Rightarrow> (string \<Rightarrow> query_args \<Rightarrow> 'r) \<Rightarrow> string \<Rightarrow> query_args \<Rightarrow> 'r" where
  "tenantProxy tid modelTarget modelProp args =
     (if modelProp \<in> set READ_METHODS then modelTarget modelProp (addTenantFilter tid args)
      else modelTarget modelProp args)"

text \<open>
  A model delegate of the storage client over one table of rows, for the methods the
  routers call: a row matches a filter when it has every property of the filter with the
  same value. The table has no declared columns here: where the client rejects a filter
  on a field its model does not have, this delegate finds no row. \<open>aggregate\<close> is not
  among its methods.
\<close>

datatype query_result = Rows "row list" | Row "row option" | Count nat

definition matches :: "row option \<Rightarrow> row \<Rightarrow> bool" where
  "matches w r = (case w of None \<Rightarrow> True | Some f \<Rightarrow> list_all (\<lambda>(k, v). map_of r k = Some v) f)"

definition assign :: "row \<Rightarrow> row \<Rightarrow> row" where
  "assign r upd = foldl (\<lambda>acc (k, v). AList.update k v acc) r upd"

definition prismaModel :: "string \<Rightarrow> query_args \<Rightarrow> row list \<Rightarrow> (error + query_result) \<times> row list" where
  "prismaModel m args t =
     (if m = ''findMany'' then (Inr (Rows (filter (matches (whereArg args)) t)), t)
      else if m = ''findFirst'' \<or> m = ''findUnique'' then (Inr (Row (find (matches (whereArg args)) t)), t)
      else if m = ''count'' then (Inr (Count (length (filter (matches (whereArg args)) t))), t)
      else if m = ''create'' then (Inr (Row (Some (dataArg args))), t @ [dataArg args])
      else if m = ''update'' then
        (case update_first (matches (whereArg args)) (\<lambda>r. assign r (dataArg args)) t of
           None \<Rightarrow> (Inl PrismaRecordNotFound, t)
         | Some (r, t') \<Rightarrow> (Inr (Row (Some r)), t'))
      else if m = ''delete'' then
        (case find (matches (whereArg args)) t of
           None \<Rightarrow> (Inl PrismaRecordNotFound, t)
         | Some r \<Rightarrow> (Inr (Row (Some r)), remove1 r t))
      else (Inl (JsError ''not a function''), t))"

section \<open>Station router: \<open>getRealtimeStats\<close>\<close>



record port_with_sessions =
  the_port :: chargingPort
  port_sessions :: "chargingSession list"


text \<open>
  \<open>include: { chargingPorts: { include: { sessions: { where: { status: 'ACTIVE' } } } } }\<close>:
  the ports of the station, each with its active sessions.
\<close>

definition includeChargingPorts :: "db \<Rightarrow> ident \<Rightarrow> port_with_sessions list" where
  "includeChargingPorts d sid =
     map (\<lambda>p. \<lparr>the_port = p,
                port_sessions = filter (\<lambda>s. session_portId s = port_id p \<and> session_status s = ACTIVE)
                                  (sessions d)\<rparr>)
         (filter (\<lambda>p. port_stationId p = sid) (chargingPorts d))"





section \<open>Station router: \<open>getById\<close> and \<open>updatePortStatus\<close>\<close>

record station_details =
  details_station :: station
  details_chargingPorts :: "port_with_sessions list"

text \<open>
  The resolver of \<open>getById\<close>, a \<open>protectedProcedure\<close>: \<open>findUnique({ where: { id } })\<close> with
  the station's ports and their active sessions included (telemetry and analytics rows
  are not modelled), \<open>NOT_FOUND\<close> when no station has the id.
\<close>

definition getById :: "ctx_user \<Rightarrow> ident \<Rightarrow> db \<Rightarrow> (error + station_details) \<times> db" where
  "getById u input_id d =
     (case find (\<lambda>s. station_id s = input_id) (stations d) of
        None \<Rightarrow> (Inl (TRPCError NOT_FOUND), d)
      | Some st \<Rightarrow>
          (Inr \<lparr>details_station = st,
                 details_chargingPorts = includeChargingPorts d (station_id st)\<rparr>, d))"

text \<open>
  The resolver of \<open>updatePortStatus\<close>, a \<open>protectedProcedure\<close>:
  \<open>chargingPort.update({ where: { id: portId }, data: { status } })\<close>, whose error for an
  unknown id is not caught. The optional socket emit has no effect on the database.
\<close>

definition updatePortStatus ::
  "ctx_user \<Rightarrow> ident \<times> port_status \<Rightarrow> db \<Rightarrow> (error + chargingPort) \<times> db" where
  "updatePortStatus u input d =
     (case input of (portId, status) \<Rightarrow>
        (case update_first (\<lambda>p. port_id p = portId) (\<lambda>p. p\<lparr>port_status := status\<rparr>)
                (chargingPorts d) of
           None \<Rightarrow> (Inl PrismaRecordNotFound, d)
         | Some (port, ports) \<Rightarrow> (Inr port, d\<lparr>chargingPorts := ports\<rparr>)))"

section \<open>Station router: \<open>findNearby\<close>\<close>

record nearby_input =
  in_latitude :: real
  in_longitude :: real
  radius :: real
  in_connectorType :: "connector_type option"
  availableOnly :: bool

record nearby_station =
  nb_station :: station
  distance :: real
  nb_chargingPorts :: "chargingPort list"
  nb_availablePorts :: nat
  nb_totalPorts :: nat

text \<open>
  The raw query, sent to PostgreSQL through \<open>$queryRaw\<close>. It selects \<open>s.*\<close> and the
  computed column under the alias \<open>distance\<close>, has no \<open>GROUP BY\<close>, and filters with
  \<open>HAVING distance < radius\<close>. PostgreSQL resolves the names of a \<open>HAVING\<close> clause
  against the columns of the \<open>FROM\<close> clause, not against the aliases of the select
  list, and a query with \<open>HAVING\<close> is a grouped query, in which \<open>s.*\<close> may not be
  selected ungrouped. The statement is therefore rejected when it is analysed, before
  any row is read: \<open>$queryRaw\<close> throws, whatever the point, the radius and the stations
  are. A row of the result would be a station with its distance.
\<close>

definition queryNearby :: "real \<Rightarrow> real \<Rightarrow> real \<Rightarrow> db \<Rightarrow> error + (station \<times> real) list" where
  "queryNearby lat lon r d = Inl PrismaRawQueryFailed"

text \<open>
  \<open>chargingPort.findMany\<close> for one station, with the optional conditions on the
  connector type and on the status.
\<close>

definition portsOf :: "nearby_input \<Rightarrow> db \<Rightarrow> station \<Rightarrow> chargingPort list" where
  "portsOf input d s =
     filter (\<lambda>p. port_stationId p = station_id s
                \<and> (case in_connectorType input of None \<Rightarrow> True | Some c \<Rightarrow> connectorType p = c)
                \<and> (availableOnly input \<longrightarrow> port_status p = AVAILABLE))
            (chargingPorts d)"

definition withPorts :: "nearby_input \<Rightarrow> db \<Rightarrow> station \<times> real \<Rightarrow> nearby_station" where
  "withPorts input d row =
     (let ports = portsOf input d (fst row)
      in \<lparr>nb_station = fst row, distance = snd row, nb_chargingPorts = ports,
           nb_availablePorts = length (filter (\<lambda>p. port_status p = AVAILABLE) ports),
           nb_totalPorts = length ports\<rparr>)"

text \<open>
  The resolver of \<open>findNearby\<close>, a \<open>protectedProcedure\<close>: the error of the raw query is
  not caught; on its rows, each station gets its ports, and with \<open>availableOnly\<close> the
  stations without an AVAILABLE port are left out.
\<close>

definition findNearby :: "ctx_user \<Rightarrow> nearby_input \<Rightarrow> db \<Rightarrow> error + nearby_station list" where
  "findNearby u input d =
     (case queryNearby (in_latitude input) (in_longitude input) (radius input) d of
        Inl e \<Rightarrow> Inl e
      | Inr stations' \<Rightarrow>
          (let stationsWithPorts = map (withPorts input d) stations'
           in Inr (filter (\<lambda>st. \<not> availableOnly input \<or> 0 < nb_availablePorts st)
                     stationsWithPorts)))"

section \<open>Payment router\<close>

text \<open>
  The payment provider is outside the program: each resolver takes what the provider's
  client returns for its one call, \<open>None\<close> when the client throws. The provider's
  objects are modelled by the fields the resolvers read.
\<close>

record stripe_intent =
  intent_id :: string
  client_secret :: "string option"
  intent_status :: string

record stripe_refund =
  refund_id :: string
  refund_amount :: real
  refund_status :: "string option"

text \<open>
  \<open>payment.create\<close>: the row is appended unless its primary key or its provider
  reference, both unique, are already in the table.
\<close>

definition create_payment :: "payment \<Rightarrow> db \<Rightarrow> error + db" where
  "create_payment p d =
     (if payment_id p \<in> set (map payment_id (payments d))
         \<or> (stripePaymentId p \<noteq> None \<and> stripePaymentId p \<in> set (map stripePaymentId (payments d)))
      then Inl PrismaUniqueConstraint
      else Inr (d\<lparr>payments := payments d @ [p]\<rparr>))"

text \<open>
  The \<open>catch\<close> block that closes each resolver of this router: whatever the \<open>try\<close> block
  threw is logged and replaced by \<open>INTERNAL_SERVER_ERROR\<close>; the writes made before the
  throw stay.
\<close>

definition catch_all :: "(error + 'a) \<times> db \<Rightarrow> (error + 'a) \<times> db" where
  "catch_all r =
     (case r of
        (Inl e, d) \<Rightarrow> (Inl (TRPCError INTERNAL_SERVER_ERROR), d)
      | (Inr v, d) \<Rightarrow> (Inr v, d))"

subsection \<open>\<open>createPaymentIntent\<close>\<close>

record create_intent_input =
  ci_amount :: real
  ci_currency :: string
  ci_sessionId :: "ident option"
  ci_bookingId :: "ident option"
  ci_metadata :: "(string \<times> meta_value) list option"

record create_intent_result =
  ci_paymentId :: ident
  ci_clientSecret :: "string option"
  ci_res_amount :: real
  ci_res_currency :: string

text \<open>
  The \<open>try\<close> block: \<open>created\<close> is the intent the provider made for this call and \<open>newId\<close>
  the key the storage client generates for the new row.
\<close>

definition createPaymentIntent_try ::
  "stripe_intent option \<Rightarrow> ident \<Rightarrow> ctx_user \<Rightarrow> create_intent_input \<Rightarrow> db
   \<Rightarrow> (error + create_intent_result) \<times> db" where
  "createPaymentIntent_try created newId u input d =
     (case created of
        None \<Rightarrow> (Inl StripeError, d)
      | Some paymentIntent \<Rightarrow>
          (case create_payment
                  \<lparr>payment_id = newId, amount = ci_amount input, currency = ci_currency input,
                   pay_status = PENDING, pay_method = ''CREDIT_CARD'',
                   stripePaymentId = Some (intent_id paymentIntent),
                   payment_userId = user_id u,
                   sessionId = ci_sessionId input, bookingId = ci_bookingId input,
                   metadata = (case ci_metadata input of None \<Rightarrow> [] | Some m \<Rightarrow> m)\<rparr> d of
             Inl e \<Rightarrow> (Inl e, d)
           | Inr d' \<Rightarrow>
               (Inr \<lparr>ci_paymentId = newId, ci_clientSecret = client_secret paymentIntent,
                      ci_res_amount = ci_amount input, ci_res_currency = ci_currency input\<rparr>, d')))"

definition createPaymentIntent ::
  "stripe_intent option \<Rightarrow> ident \<Rightarrow> ctx_user \<Rightarrow> create_intent_input \<Rightarrow> db
   \<Rightarrow> (error + create_intent_result) \<times> db" where
  "createPaymentIntent created newId u input d =
     catch_all (createPaymentIntent_try created newId u input d)"

subsection \<open>\<open>confirmPayment\<close>\<close>

record confirm_input =
  paymentIntentId :: string
  paymentMethodId :: string

record confirm_result =
  cf_paymentId :: ident
  cf_status :: payment_status
  cf_amount :: real

text \<open>\<open>chargingSession.update({ where: { id }, data: { cost } })\<close> when the payment has a session.\<close>

definition updateSessionCost :: "payment \<Rightarrow> db \<Rightarrow> error + db" where
  "updateSessionCost p d =
     (if truthy (sessionId p) then
        (case update_first (\<lambda>s. session_id s = the (sessionId p))
                (\<lambda>s. s\<lparr>cost := Some (amount p)\<rparr>) (sessions d) of
           None \<Rightarrow> Inl PrismaRecordNotFound
         | Some (_, ss) \<Rightarrow> Inr (d\<lparr>sessions := ss\<rparr>))
      else Inr d)"

text \<open>\<open>booking.update({ where: { id }, data: { totalCost } })\<close> when the payment has a booking.\<close>

definition updateBookingCost :: "payment \<Rightarrow> db \<Rightarrow> error + db" where
  "updateBookingCost p d =
     (if truthy (bookingId p) then
        (case update_first (\<lambda>b. booking_id b = the (bookingId p))
                (\<lambda>b. b\<lparr>totalCost := Some (amount p)\<rparr>) (bookings d) of
           None \<Rightarrow> Inl PrismaRecordNotFound
         | Some (_, bs) \<Rightarrow> Inr (d\<lparr>bookings := bs\<rparr>))
      else Inr d)"

text \<open>
  The \<open>try\<close> block: \<open>retrieved\<close> is the intent the provider returns for
  \<open>paymentIntentId\<close>, \<open>nowIso\<close> the current time as an ISO string. The three updates are
  separate statements, not a transaction.
\<close>

definition confirmPayment_try ::
  "stripe_intent option \<Rightarrow> string \<Rightarrow> ctx_user \<Rightarrow> confirm_input \<Rightarrow> db
   \<Rightarrow> (error + confirm_result) \<times> db" where
  "confirmPayment_try retrieved nowIso u input d =
     (case retrieved of
        None \<Rightarrow> (Inl StripeError, d)
      | Some paymentIntent \<Rightarrow>
          if intent_status paymentIntent \<noteq> ''succeeded'' then (Inl (TRPCError BAD_REQUEST), d)
          else
            (case update_first
                    (\<lambda>p. stripePaymentId p = Some (paymentIntentId input)
                          \<and> payment_userId p = user_id u)
                    (\<lambda>p. p\<lparr>pay_status := COMPLETED,
                             metadata := [(''paymentMethodId'', MStr (paymentMethodId input)),
                                          (''confirmedAt'', MStr nowIso)]\<rparr>)
                    (payments d) of
               None \<Rightarrow> (Inl PrismaRecordNotFound, d)
             | Some (payment, ps) \<Rightarrow>
                 (let d1 = d\<lparr>payments := ps\<rparr>
                  in case updateSessionCost payment d1 of
                       Inl e \<Rightarrow> (Inl e, d1)
                     | Inr d2 \<Rightarrow>
                         (case updateBookingCost payment d2 of
                            Inl e \<Rightarrow> (Inl e, d2)
                          | Inr d3 \<Rightarrow>
                              (Inr \<lparr>cf_paymentId = payment_id payment,
                                     cf_status = pay_status payment,
                                     cf_amount = amount payment\<rparr>, d3)))))"

definition confirmPayment ::
  "stripe_intent option \<Rightarrow> string \<Rightarrow> ctx_user \<Rightarrow> confirm_input \<Rightarrow> db
   \<Rightarrow> (error + confirm_result) \<times> db" where
  "confirmPayment retrieved nowIso u input d =
     catch_all (confirmPayment_try retrieved nowIso u input d)"

subsection \<open>\<open>refundPayment\<close>\<close>

record refund_input =
  rf_paymentId :: ident
  rf_amount :: "real option"
  rf_reason :: string

record refund_result =
  rr_refundId :: string
  rr_amount :: real
  rr_status :: "string option"

text \<open>
  The \<open>try\<close> block: \<open>refund\<close> is the refund the provider creates, \<open>nowIso\<close> the current
  time as an ISO string.
\<close>

definition refundPayment_try ::
  "stripe_refund option \<Rightarrow> string \<Rightarrow> ctx_user \<Rightarrow> refund_input \<Rightarrow> db
   \<Rightarrow> (error + refund_result) \<times> db" where
  "refundPayment_try refund nowIso u input d =
     (case find (\<lambda>p. payment_id p = rf_paymentId input \<and> payment_userId p = user_id u
                      \<and> pay_status p = COMPLETED) (payments d) of
        None \<Rightarrow> (Inl (TRPCError NOT_FOUND), d)
      | Some payment \<Rightarrow>
          if \<not> truthy (stripePaymentId payment) then (Inl (TRPCError NOT_FOUND), d)
          else
            (case refund of
               None \<Rightarrow> (Inl StripeError, d)
             | Some rf \<Rightarrow>
                 (case update_first (\<lambda>p. payment_id p = rf_paymentId input)
                         (\<lambda>p. p\<lparr>pay_status := REFUNDED,
                                  metadata :=
                                    AList.update ''refundAmount'' (MNum (refund_amount rf / 100))
                                      (AList.update ''refundedAt'' (MStr nowIso)
                                         (AList.update ''refundId'' (MStr (refund_id rf))
                                            (metadata payment)))\<rparr>)
                         (payments d) of
                    None \<Rightarrow> (Inl PrismaRecordNotFound, d)
                  | Some (_, ps) \<Rightarrow>
                      (Inr \<lparr>rr_refundId = refund_id rf, rr_amount = refund_amount rf / 100,
                             rr_status = refund_status rf\<rparr>,
                       d\<lparr>payments := ps\<rparr>))))"

definition refundPayment ::
  "stripe_refund option \<Rightarrow> string \<Rightarrow> ctx_user \<Rightarrow> refund_input \<Rightarrow> db
   \<Rightarrow> (error + refund_result) \<times> db" where
  "refundPayment refund nowIso u input d =
     catch_all (refundPayment_try refund nowIso u input d)"

section \<open>Auth router: \<open>register\<close>\<close>

record register_input =
  reg_email :: string
  reg_password :: string
  reg_firstName :: string
  reg_lastName :: string
  reg_phone :: "string option"
  tenantName :: string
  tenantType :: tenant_type

text \<open>
  What the call gets from outside the program: the bcrypt hash of the password and the
  keys the storage client generates for the two new rows.
\<close>

record register_env =
  hashedPassword :: string
  newTenantId :: ident
  newUserId :: ident

record tenant_summary =
  ts_id :: ident
  ts_name :: string
  ts_type :: tenant_type

record user_summary =
  us_id :: ident
  us_email :: string
  us_firstName :: string
  us_lastName :: string
  us_role :: string
  us_tenant :: tenant_summary

record register_result =
  reg_token :: token
  reg_user :: user_summary

text \<open>\<open>tenant.create\<close> and \<open>user.create\<close>: the primary key and the user's e-mail are unique.\<close>

definition create_tenant :: "tenant \<Rightarrow> db \<Rightarrow> error + db" where
  "create_tenant t d =
     (if tenant_id t \<in> set (map tenant_id (tenants d)) then Inl PrismaUniqueConstraint
      else Inr (d\<lparr>tenants := tenants d @ [t]\<rparr>))"

definition create_user :: "user \<Rightarrow> db \<Rightarrow> error + db" where
  "create_user u d =
     (if u_id u \<in> set (map u_id (users d)) \<or> u_email u \<in> set (map u_email (users d))
      then Inl PrismaUniqueConstraint
      else Inr (d\<lparr>users := users d @ [u]\<rparr>))"

text \<open>The \<open>data\<close> of the two \<open>create\<close> calls.\<close>

definition new_tenant :: "register_input \<Rightarrow> register_env \<Rightarrow> tenant" where
  "new_tenant input env =
     \<lparr>tenant_id = newTenantId env, tenant_name = tenantName input,
      tenant_type = tenantType input, tenant_isActive = True, tenant_domain = None\<rparr>"

definition new_user :: "register_input \<Rightarrow> register_env \<Rightarrow> tenant \<Rightarrow> user" where
  "new_user input env tenant =
     \<lparr>u_id = newUserId env, u_email = reg_email input,
      u_password = Some (hashedPassword env),
      u_firstName = reg_firstName input, u_lastName = reg_lastName input,
      u_phone = reg_phone input, u_role = ''TENANT_ADMIN'',
      u_tenantId = tenant_id tenant, u_isActive = True\<rparr>"

text \<open>The callback handed to \<open>$transaction\<close>: the tenant, then its admin user.\<close>

definition register_tx :: "register_input \<Rightarrow> register_env \<Rightarrow> db \<Rightarrow> (error + tenant \<times> user) \<times> db" where
  "register_tx input env tx =
     (let tenant = new_tenant input env
      in case create_tenant tenant tx of
           Inl e \<Rightarrow> (Inl e, tx)
         | Inr tx1 \<Rightarrow>
             (let user = new_user input env tenant
              in case create_user user tx1 of
                   Inl e \<Rightarrow> (Inl e, tx1)
                 | Inr tx2 \<Rightarrow> (Inr (tenant, user), tx2)))"

text \<open>The resolver of \<open>register\<close>, a \<open>publicProcedure\<close>.\<close>

definition register ::
  "string option \<Rightarrow> nat \<Rightarrow> register_env \<Rightarrow> register_input \<Rightarrow> db \<Rightarrow> (error + register_result) \<times> db" where
  "register secret_env now env input d =
     (case find (\<lambda>u. u_email u = reg_email input) (users d) of
        Some existingUser \<Rightarrow> (Inl (TRPCError CONFLICT), d)
      | None \<Rightarrow>
          (case transaction (register_tx input env) d of
             (Inl e, d') \<Rightarrow> (Inl e, d')
           | (Inr (tenant, user), d') \<Rightarrow>
               (Inr \<lparr>reg_token = signJWT secret_env now
                                   \<lparr>userId = u_id user, tenantId = tenant_id tenant,
                                    role = u_role user\<rparr>,
                      reg_user = \<lparr>us_id = u_id user, us_email = u_email user,
                                  us_firstName = u_firstName user, us_lastName = u_lastName user,
                                  us_role = u_role user,
                                  us_tenant = \<lparr>ts_id = tenant_id tenant,
                                               ts_name = tenant_name tenant,
                                               ts_type = tenant_type tenant\<rparr>\<rparr>\<rparr>, d')))"

section \<open>Example data\<close>

text \<open>
  Two tenants with one user each, three stations (the third without ports), and
  payments of the first user in each status.
\<close>

definition ex_users :: "user list" where
  "ex_users =
     [\<lparr>u_id = ''u1'', u_email = ''ops@alpha.example'', u_password = Some ''h1'',
       u_firstName = ''Ada'', u_lastName = ''Alpha'', u_phone = None, u_role = ''OPERATOR'',
       u_tenantId = ''T1'', u_isActive = True\<rparr>,
      \<lparr>u_id = ''u2'', u_email = ''ops@beta.example'', u_password = Some ''h2'',
       u_firstName = ''Bo'', u_lastName = ''Beta'', u_phone = None, u_role = ''TENANT_ADMIN'',
       u_tenantId = ''T2'', u_isActive = True\<rparr>]"

definition ex_tenants :: "tenant list" where
  "ex_tenants =
     [\<lparr>tenant_id = ''T1'', tenant_name = ''Alpha'', tenant_type = STATION_OPERATOR,
       tenant_isActive = True, tenant_domain = None\<rparr>,
      \<lparr>tenant_id = ''T2'', tenant_name = ''Beta'', tenant_type = ENTERPRISE,
       tenant_isActive = True, tenant_domain = None\<rparr>]"

definition ex_stations :: "station list" where
  "ex_stations =
     [\<lparr>station_id = ''st1'', station_tenantId = ''T1'', station_name = ''Downtown Station Alpha'',
       address = ''123 Main St'', latitude = 0, longitude = 0, is_active = True\<rparr>,
      \<lparr>station_id = ''st2'', station_tenantId = ''T2'', station_name = ''Mall Charging Hub'',
       address = ''456 Shopping Blvd'', latitude = 0, longitude = 0, is_active = True\<rparr>,
      \<lparr>station_id = ''st3'', station_tenantId = ''T1'', station_name = ''Highway Rest Stop'',
       address = ''789 Interstate Dr'', latitude = 0, longitude = 0, is_active = False\<rparr>]"

definition ex_ports :: "chargingPort list" where
  "ex_ports =
     [\<lparr>port_id = ''p1'', port_stationId = ''st1'', portNumber = 1, connectorType = CCS2,
       powerOutput = 150, port_status = OCCUPIED\<rparr>,
      \<lparr>port_id = ''p2'', port_stationId = ''st1'', portNumber = 2, connectorType = TYPE2,
       powerOutput = 22, port_status = AVAILABLE\<rparr>,
      \<lparr>port_id = ''p3'', port_stationId = ''st2'', portNumber = 1, connectorType = CCS1,
       powerOutput = 50, port_status = OCCUPIED\<rparr>]"

definition ex_sessions :: "chargingSession list" where
  "ex_sessions =
     [\<lparr>session_id = ''se1'', session_portId = ''p1'', session_userId = ''u1'',
       session_status = ACTIVE, cost = None, energyUsed = Some 30\<rparr>,
      \<lparr>session_id = ''se2'', session_portId = ''p3'', session_userId = ''u2'',
       session_status = ACTIVE, cost = Some 4, energyUsed = Some 10\<rparr>]"

definition ex_bookings :: "booking list" where
  "ex_bookings = [\<lparr>booking_id = ''b1'', totalCost = None\<rparr>, \<lparr>booking_id = ''b2'', totalCost = Some 7\<rparr>]"

definition ex_payments :: "payment list" where
  "ex_payments =
     [\<lparr>payment_id = ''pay1'', amount = 25, currency = ''USD'', pay_status = PENDING,
       pay_method = ''CREDIT_CARD'', stripePaymentId = Some ''pi_1'', payment_userId = ''u1'',
       sessionId = Some ''se1'', bookingId = Some ''b1'', metadata = []\<rparr>,
      \<lparr>payment_id = ''pay2'', amount = 40, currency = ''USD'', pay_status = COMPLETED,
       pay_method = ''CREDIT_CARD'', stripePaymentId = Some ''pi_2'', payment_userId = ''u1'',
       sessionId = None, bookingId = None, metadata = []\<rparr>,
      \<lparr>payment_id = ''pay3'', amount = 9, currency = ''USD'', pay_status = REFUNDED,
       pay_method = ''CREDIT_CARD'', stripePaymentId = Some ''pi_3'', payment_userId = ''u1'',
       sessionId = None, bookingId = None, metadata = []\<rparr>]"

definition ex_db :: db where
  "ex_db = \<lparr>tenants = ex_tenants, users = ex_users, stations = ex_stations,
            chargingPorts = ex_ports, sessions = ex_sessions, bookings = ex_bookings,
            payments = ex_payments\<rparr>"

text \<open>The context \<open>authMiddleware\<close> builds for the first user, of tenant \<open>T1\<close>.\<close>

definition ex_ctx1 :: ctx_user where
  "ex_ctx1 = \<lparr>user_id = ''u1'', user_tenantId = ''T1'', user_role = ''OPERATOR''\<rparr>"

lemmas ex_defs =
  ex_db_def ex_users_def ex_tenants_def ex_stations_def ex_ports_def ex_sessions_def
  ex_bookings_def ex_payments_def ex_ctx1_def

definition ex_register_input :: register_input where
  "ex_register_input =
     \<lparr>reg_email = ''admin@gamma.example'', reg_password = ''correct horse'',
      reg_firstName = ''Cy'', reg_lastName = ''Gamma'', reg_phone = None,
      tenantName = ''Gamma'', tenantType = NETWORK_PROVIDER\<rparr>"

text \<open>Calls of the payment router on the example data.\<close>

definition ex_intent_input :: create_intent_input where
  "ex_intent_input =
     \<lparr>ci_amount = 25, ci_currency = ''USD'', ci_sessionId = Some ''se1'',
      ci_bookingId = None, ci_metadata = None\<rparr>"

definition ex_intent :: "string \<Rightarrow> string \<Rightarrow> stripe_intent" where
  "ex_intent i st = \<lparr>intent_id = i, client_secret = Some (i @ ''_secret''), intent_status = st\<rparr>"

definition ex_new_payment :: "ident \<Rightarrow> string \<Rightarrow> payment" where
  "ex_new_payment i ref =
     \<lparr>payment_id = i, amount = 25, currency = ''USD'', pay_status = PENDING,
      pay_method = ''CREDIT_CARD'', stripePaymentId = Some ref, payment_userId = ''u1'',
      sessionId = Some ''se1'', bookingId = None, metadata = []\<rparr>"

definition ex_refund :: stripe_refund where
  "ex_refund = \<lparr>refund_id = ''re_1'', refund_amount = 4000, refund_status = Some ''succeeded''\<rparr>"

definition ex_refund_input :: "ident \<Rightarrow> refund_input" where
  "ex_refund_input i = \<lparr>rf_paymentId = i, rf_amount = None, rf_reason = ''requested_by_customer''\<rparr>"

definition ex_confirm_input :: confirm_input where
  "ex_confirm_input = \<lparr>paymentIntentId = ''pi_1'', paymentMethodId = ''pm_1''\<rparr>"

definition ex_now :: string where
  "ex_now = ''2026-01-01T00:00:00.000Z''"

lemmas ex_pay_defs =
  ex_intent_input_def ex_intent_def ex_new_payment_def ex_refund_def ex_refund_input_def
  ex_confirm_input_def ex_now_def

text \<open>A token of the first user, and a table of rows of two tenants for the proxy.\<close>

definition ex_token :: token where
  "ex_token = signJWT None 1000 \<lparr>userId = ''u1'', tenantId = ''T1'', role = ''OPERATOR''\<rparr>"

definition ex_rows :: "row list" where
  "ex_rows =
     [[(''id'', ''st1''), (''tenantId'', ''T1''), (''name'', ''Downtown'')],
      [(''id'', ''st2''), (''tenantId'', ''T2''), (''name'', ''Mall'')]]"

text \<open>The scenario of the specification: one station in San Francisco, queried from nearby.\<close>

definition ex_sf_station :: station where
  "ex_sf_station =
     \<lparr>station_id = ''sf1'', station_tenantId = ''T1'', station_name = ''Downtown Station Alpha'',
      address = ''123 Main St, Downtown'', latitude = 37.7749, longitude = - 122.4194,
      is_active = True\<rparr>"

definition ex_sf_db :: db where
  "ex_sf_db = ex_db\<lparr>stations := [ex_sf_station]\<rparr>"

definition ex_sf_input :: nearby_input where
  "ex_sf_input =
     \<lparr>in_latitude = 37.7849, in_longitude = - 122.4094, radius = 10,
      in_connectorType = None, availableOnly = False\<rparr>"


section \<open>Properties\<close>






subsection \<open>Token refresh\<close>

lemma verifyJWT_signJWT:
  "verifyJWT env now (signJWT env t0 p) =
     (if t0 + 86400 \<le> now then Inl (JsError ''TokenExpiredError'')
      else Inr \<lparr>userId = userId p, tenantId = tenantId p, role = role p,
                 iat = Some t0, expires = Some (t0 + 86400)\<rparr>)"
  by (simp add: verifyJWT_def signJWT_def jwt_verify_def jwt_sign_def)

text \<open>
  C9. Refreshing a token that \<open>signJWT\<close> issued for the payload \<open>p\<close> and that still
  verifies gives the token \<open>signJWT\<close> issues now for the same \<open>userId\<close>, \<open>tenantId\<close> and
  \<open>role\<close>; that token verifies, and its decoded identity is that of \<open>p\<close>. Only the
  two timestamps differ.
\<close>

theorem refreshToken_preserves_identity:
  fixes p :: sign_payload
  assumes "verifyJWT env now (signJWT env t0 p) = Inr decoded"
  shows "refreshToken env now (signJWT env t0 p) = Inr (signJWT env now p)
         \<and> verifyJWT env now (signJWT env now p) =
             Inr \<lparr>userId = userId p, tenantId = tenantId p, role = role p,
                  iat = Some now, expires = Some (now + 86400)\<rparr>
         \<and> userId decoded = userId p \<and> tenantId decoded = tenantId p \<and> role decoded = role p"
proof -
  from assms have d: "decoded = \<lparr>userId = userId p, tenantId = tenantId p, role = role p,
                 iat = Some t0, expires = Some (t0 + 86400)\<rparr>"
    by (simp add: verifyJWT_signJWT split: if_splits)
  have "refreshToken env now (signJWT env t0 p) = Inr (signJWT env now p)"
    using assms by (simp add: refreshToken_def d signJWT_def jwt_sign_def)
  moreover have "verifyJWT env now (signJWT env now p) =
             Inr \<lparr>userId = userId p, tenantId = tenantId p, role = role p,
                  iat = Some now, expires = Some (now + 86400)\<rparr>"
    by (simp add: verifyJWT_signJWT)
  ultimately show ?thesis by (simp add: d)
qed

theorem refreshToken_preserves_identity_witness:
  "verifyJWT None 2000 (signJWT None 1000 \<lparr>userId = ''u1'', tenantId = ''T1'', role = ''OPERATOR''\<rparr>)
     = Inr \<lparr>userId = ''u1'', tenantId = ''T1'', role = ''OPERATOR'', iat = Some 1000, expires = Some 87400\<rparr>
   \<and> refreshToken None 2000 (signJWT None 1000 \<lparr>userId = ''u1'', tenantId = ''T1'', role = ''OPERATOR''\<rparr>)
     = Inr (signJWT None 2000 \<lparr>userId = ''u1'', tenantId = ''T1'', role = ''OPERATOR''\<rparr>)
   \<and> verifyJWT None 2000 (signJWT None 2000 \<lparr>userId = ''u1'', tenantId = ''T1'', role = ''OPERATOR''\<rparr>)
     = Inr \<lparr>userId = ''u1'', tenantId = ''T1'', role = ''OPERATOR'', iat = Some 2000, expires = Some 88400\<rparr>"
proof -
  have h: "verifyJWT None 2000 (signJWT None 1000 \<lparr>userId = ''u1'', tenantId = ''T1'', role = ''OPERATOR''\<rparr>)
     = Inr \<lparr>userId = ''u1'', tenantId = ''T1'', role = ''OPERATOR'', iat = Some 1000, expires = Some 87400\<rparr>"
    by (simp add: verifyJWT_signJWT)
  show ?thesis
    using refreshToken_preserves_identity [OF h] h by simp
qed

subsection \<open>Registration\<close>

text \<open>
  C8. Registration is atomic: whatever \<open>register\<close> returns, either it failed and the
  database is as it was, or it succeeded and exactly the new tenant and its admin
  user were added. A failure of the user's creation after the tenant's leaves no
  tenant behind.
\<close>

theorem register_atomic:
  assumes "register senv now env input d = (r, d')"
  shows "(isl r \<and> d' = d)
         \<or> (\<not> isl r
             \<and> d' = d\<lparr>tenants := tenants d @ [new_tenant input env],
                        users := users d @ [new_user input env (new_tenant input env)]\<rparr>
             \<and> u_tenantId (new_user input env (new_tenant input env)) = tenant_id (new_tenant input env)
             \<and> u_role (new_user input env (new_tenant input env)) = ''TENANT_ADMIN'')"
proof (cases "find (\<lambda>u. u_email u = reg_email input) (users d)")
  case (Some a)
  with assms show ?thesis by (auto simp: register_def)
next
  case None
  show ?thesis
  proof (cases "create_tenant (new_tenant input env) d")
    case (Inl e)
    with assms None show ?thesis
      by (auto simp: register_def transaction_def register_tx_def Let_def)
  next
    case (Inr tx1)
    then have tx1: "tx1 = d\<lparr>tenants := tenants d @ [new_tenant input env]\<rparr>"
      by (simp add: create_tenant_def split: if_splits)
    show ?thesis
    proof (cases "create_user (new_user input env (new_tenant input env)) tx1")
      case (Inl e)
      with assms None Inr show ?thesis
        by (auto simp: register_def transaction_def register_tx_def Let_def)
    next
      case (Inr tx2)
      then have tx2: "tx2 = tx1\<lparr>users := users tx1 @ [new_user input env (new_tenant input env)]\<rparr>"
        by (simp add: create_user_def split: if_splits)
      from assms None \<open>create_tenant (new_tenant input env) d = Inr tx1\<close> Inr
      have "\<not> isl r" and "d' = tx2"
        by (auto simp: register_def transaction_def register_tx_def Let_def)
      then show ?thesis
        by (simp add: tx2 tx1 new_user_def)
    qed
  qed
qed

theorem register_atomic_witness:
  "register None 1000 \<lparr>hashedPassword = ''h3'', newTenantId = ''T3'', newUserId = ''u1''\<rparr>
       ex_register_input ex_db = (Inl PrismaUniqueConstraint, ex_db)
   \<and> snd (register None 1000 \<lparr>hashedPassword = ''h3'', newTenantId = ''T3'', newUserId = ''u3''\<rparr>
       ex_register_input ex_db)
     = ex_db\<lparr>tenants := tenants ex_db @
                [new_tenant ex_register_input \<lparr>hashedPassword = ''h3'', newTenantId = ''T3'', newUserId = ''u3''\<rparr>],
              users := users ex_db @
                [new_user ex_register_input \<lparr>hashedPassword = ''h3'', newTenantId = ''T3'', newUserId = ''u3''\<rparr>
                   (new_tenant ex_register_input \<lparr>hashedPassword = ''h3'', newTenantId = ''T3'', newUserId = ''u3''\<rparr>)]\<rparr>"
proof -
  let ?bad = "\<lparr>hashedPassword = ''h3'', newTenantId = ''T3'', newUserId = ''u1''\<rparr>"
  let ?ok = "\<lparr>hashedPassword = ''h3'', newTenantId = ''T3'', newUserId = ''u3''\<rparr>"
  have fail: "fst (register None 1000 ?bad ex_register_input ex_db) = Inl PrismaUniqueConstraint"
    by (simp add: register_def transaction_def register_tx_def create_tenant_def create_user_def
          new_tenant_def new_user_def ex_register_input_def ex_defs Let_def)
  have ok: "\<not> isl (fst (register None 1000 ?ok ex_register_input ex_db))"
    by (simp add: register_def transaction_def register_tx_def create_tenant_def create_user_def
          new_tenant_def new_user_def ex_register_input_def ex_defs Let_def)
  have a: "snd (register None 1000 ?bad ex_register_input ex_db) = ex_db"
    using register_atomic [OF surjective_pairing, of None 1000 ?bad ex_register_input ex_db] fail
    by simp
  have b: "snd (register None 1000 ?ok ex_register_input ex_db)
     = ex_db\<lparr>tenants := tenants ex_db @ [new_tenant ex_register_input ?ok],
              users := users ex_db @ [new_user ex_register_input ?ok (new_tenant ex_register_input ?ok)]\<rparr>"
    using register_atomic [OF surjective_pairing, of None 1000 ?ok ex_register_input ex_db] ok
    by simp
  from a b fail show ?thesis
    by (metis prod.collapse)
qed

subsection \<open>Storage lemmas\<close>

lemma update_first_map:
  assumes "find P xs = Some p" and "distinct (map key xs)"
  shows "update_first P f xs = Some (f p, map (\<lambda>x. if key x = key p then f x else x) xs)"
  using assms
proof (induction xs)
  case Nil
  then show ?case by simp
next
  case (Cons x xs)
  show ?case
  proof (cases "P x")
    case True
    with Cons.prems have px: "p = x" by simp
    from Cons.prems(2) have nx: "key x \<notin> key ` set xs" by simp
    have "\<forall>y\<in>set xs. key y \<noteq> key x"
    proof
      fix y assume "y \<in> set xs"
      then have "key y \<in> key ` set xs" by (rule imageI)
      with nx show "key y \<noteq> key x" by metis
    qed
    then have "map (\<lambda>y. if key y = key x then f y else y) xs = xs"
      by (induction xs) auto
    with True px show ?thesis by simp
  next
    case False
    with Cons.prems have fp: "find P xs = Some p" by simp
    then have "p \<in> set xs" by (auto simp: find_Some_iff in_set_conv_nth)
    then have "key p \<in> key ` set xs" by (rule imageI)
    moreover from Cons.prems(2) have "key x \<notin> key ` set xs" by simp
    ultimately have "key x \<noteq> key p" by metis
    with False Cons.IH [OF fp] Cons.prems show ?thesis by simp
  qed
qed

lemma find_key:
  assumes "x \<in> set xs"
  shows "\<exists>y. find (\<lambda>z. key z = key x) xs = Some y \<and> key y = key x"
  using assms by (induction xs) auto

subsection \<open>Payment intents\<close>

lemma createPaymentIntent_success:
  assumes "createPaymentIntent created newId u input d = (Inr r, d')"
  shows "ci_paymentId r = newId \<and> newId \<notin> set (map payment_id (payments d))
         \<and> (\<exists>p. payments d' = payments d @ [p] \<and> payment_id p = newId \<and> pay_status p = PENDING
                \<and> sessionId p = ci_sessionId input \<and> amount p = ci_amount input)"
  using assms
  by (auto simp: createPaymentIntent_def createPaymentIntent_try_def catch_all_def create_payment_def
        split: option.splits sum.splits if_splits)

text \<open>
  C3 (as amended). \<open>createPaymentIntent\<close> never looks for an existing payment: a
  successful call appends a new PENDING payment under a key that no stored payment
  has. So two successful calls with the same input, one after the other, return
  different payment ids and leave two payments for the same session and amount.
\<close>

theorem createPaymentIntent_creates_new_payment:
  assumes "createPaymentIntent created1 newId1 u input d = (Inr r1, d1)"
      and "createPaymentIntent created2 newId2 u input d1 = (Inr r2, d2)"
  shows "ci_paymentId r2 \<noteq> ci_paymentId r1
         \<and> ci_paymentId r1 \<notin> set (map payment_id (payments d))
         \<and> (\<exists>p1 p2. payments d2 = payments d @ [p1, p2]
                \<and> payment_id p1 = ci_paymentId r1 \<and> payment_id p2 = ci_paymentId r2
                \<and> pay_status p1 = PENDING \<and> pay_status p2 = PENDING
                \<and> sessionId p1 = ci_sessionId input \<and> sessionId p2 = ci_sessionId input
                \<and> amount p1 = ci_amount input \<and> amount p2 = ci_amount input)"
proof -
  from createPaymentIntent_success [OF assms(1)] obtain p1 where
    1: "ci_paymentId r1 = newId1" "newId1 \<notin> set (map payment_id (payments d))"
       "payments d1 = payments d @ [p1]" "payment_id p1 = newId1" "pay_status p1 = PENDING"
       "sessionId p1 = ci_sessionId input" "amount p1 = ci_amount input"
    by blast
  from createPaymentIntent_success [OF assms(2)] obtain p2 where
    2: "ci_paymentId r2 = newId2" "newId2 \<notin> set (map payment_id (payments d1))"
       "payments d2 = payments d1 @ [p2]" "payment_id p2 = newId2" "pay_status p2 = PENDING"
       "sessionId p2 = ci_sessionId input" "amount p2 = ci_amount input"
    by blast
  from 1 2 have "newId2 \<noteq> newId1" by auto
  moreover have "payments d2 = payments d @ [p1, p2]" using 1 2 by simp
  ultimately show ?thesis using 1 2 by auto
qed

lemmas pay_defs =
  createPaymentIntent_def createPaymentIntent_try_def catch_all_def create_payment_def
  confirmPayment_def confirmPayment_try_def updateSessionCost_def updateBookingCost_def
  refundPayment_def refundPayment_try_def truthy_def

text \<open>
  The claim as stated fails: on the example data, two calls with the same session and
  amount answer with the payment ids \<open>pay4\<close> and \<open>pay5\<close>, and five payments are stored
  afterwards.
\<close>

theorem createPaymentIntent_idempotent_counterexample:
  "fst (createPaymentIntent (Some (ex_intent ''pi_4'' ''requires_payment_method'')) ''pay4''
          ex_ctx1 ex_intent_input ex_db)
     = Inr \<lparr>ci_paymentId = ''pay4'', ci_clientSecret = Some ''pi_4_secret'',
            ci_res_amount = 25, ci_res_currency = ''USD''\<rparr>
   \<and> fst (createPaymentIntent (Some (ex_intent ''pi_5'' ''requires_payment_method'')) ''pay5''
          ex_ctx1 ex_intent_input
          (snd (createPaymentIntent (Some (ex_intent ''pi_4'' ''requires_payment_method'')) ''pay4''
                  ex_ctx1 ex_intent_input ex_db)))
     = Inr \<lparr>ci_paymentId = ''pay5'', ci_clientSecret = Some ''pi_5_secret'',
            ci_res_amount = 25, ci_res_currency = ''USD''\<rparr>
   \<and> map payment_id (payments
         (snd (createPaymentIntent (Some (ex_intent ''pi_5'' ''requires_payment_method'')) ''pay5''
          ex_ctx1 ex_intent_input
          (snd (createPaymentIntent (Some (ex_intent ''pi_4'' ''requires_payment_method'')) ''pay4''
                  ex_ctx1 ex_intent_input ex_db)))))
     = [''pay1'', ''pay2'', ''pay3'', ''pay4'', ''pay5'']"
  by (simp add: pay_defs ex_defs ex_pay_defs)

theorem createPaymentIntent_creates_new_payment_witness:
  "createPaymentIntent (Some (ex_intent ''pi_4'' ''requires_payment_method'')) ''pay4''
          ex_ctx1 ex_intent_input ex_db
     = (Inr \<lparr>ci_paymentId = ''pay4'', ci_clientSecret = Some ''pi_4_secret'',
             ci_res_amount = 25, ci_res_currency = ''USD''\<rparr>,
        ex_db\<lparr>payments := ex_payments @ [ex_new_payment ''pay4'' ''pi_4'']\<rparr>)
   \<and> createPaymentIntent (Some (ex_intent ''pi_5'' ''requires_payment_method'')) ''pay5''
          ex_ctx1 ex_intent_input (ex_db\<lparr>payments := ex_payments @ [ex_new_payment ''pay4'' ''pi_4'']\<rparr>)
     = (Inr \<lparr>ci_paymentId = ''pay5'', ci_clientSecret = Some ''pi_5_secret'',
             ci_res_amount = 25, ci_res_currency = ''USD''\<rparr>,
        ex_db\<lparr>payments := ex_payments @ [ex_new_payment ''pay4'' ''pi_4'', ex_new_payment ''pay5'' ''pi_5'']\<rparr>)
   \<and> ''pay5'' \<noteq> ''pay4''"
proof -
  have 1: "createPaymentIntent (Some (ex_intent ''pi_4'' ''requires_payment_method'')) ''pay4''
          ex_ctx1 ex_intent_input ex_db
     = (Inr \<lparr>ci_paymentId = ''pay4'', ci_clientSecret = Some ''pi_4_secret'',
             ci_res_amount = 25, ci_res_currency = ''USD''\<rparr>,
        ex_db\<lparr>payments := ex_payments @ [ex_new_payment ''pay4'' ''pi_4'']\<rparr>)"
    by (simp add: pay_defs ex_defs ex_pay_defs)
  have 2: "createPaymentIntent (Some (ex_intent ''pi_5'' ''requires_payment_method'')) ''pay5''
          ex_ctx1 ex_intent_input (ex_db\<lparr>payments := ex_payments @ [ex_new_payment ''pay4'' ''pi_4'']\<rparr>)
     = (Inr \<lparr>ci_paymentId = ''pay5'', ci_clientSecret = Some ''pi_5_secret'',
             ci_res_amount = 25, ci_res_currency = ''USD''\<rparr>,
        ex_db\<lparr>payments := ex_payments @ [ex_new_payment ''pay4'' ''pi_4'', ex_new_payment ''pay5'' ''pi_5'']\<rparr>)"
    by (simp add: pay_defs ex_defs ex_pay_defs)
  from createPaymentIntent_creates_new_payment [OF 1 2] have "''pay5'' \<noteq> ''pay4''"
    by simp
  with 1 2 show ?thesis by simp
qed

subsection \<open>Refunds\<close>

lemma refundPayment_not_found:
  assumes "find (\<lambda>p. payment_id p = rf_paymentId input \<and> payment_userId p = user_id u
                      \<and> pay_status p = COMPLETED) (payments d) = None"
  shows "refundPayment_try refund nowIso u input d = (Inl (TRPCError NOT_FOUND), d)
         \<and> isl (fst (refundPayment refund nowIso u input d))
         \<and> fst (refundPayment refund nowIso u input d) \<noteq> Inl (TRPCError CONFLICT)
         \<and> snd (refundPayment refund nowIso u input d) = d"
  using assms by (simp add: refundPayment_def refundPayment_try_def catch_all_def)

lemma distinct_key_eq:
  assumes "distinct (map key xs)" and "x \<in> set xs" and "y \<in> set xs" and "key x = key y"
  shows "x = y"
  using assms by (meson distinct_map inj_onD)

text \<open>
  C4 (as amended). With unique payment ids, \<open>refundPayment\<close> on a stored payment whose
  status is not COMPLETED (PENDING and REFUNDED among them) fails and leaves the
  database as it was: the handler rejects the payment as \<open>NOT_FOUND\<close>, and the call
  does not fail with \<open>CONFLICT\<close>. A call that succeeds had a COMPLETED payment of the
  caller as its target.
\<close>

theorem refundPayment_only_from_completed:
  "(distinct (map payment_id (payments d)) \<and> p \<in> set (payments d)
      \<and> pay_status p \<noteq> COMPLETED \<and> rf_paymentId input = payment_id p
    \<longrightarrow> refundPayment_try refund nowIso u input d = (Inl (TRPCError NOT_FOUND), d)
        \<and> isl (fst (refundPayment refund nowIso u input d))
        \<and> fst (refundPayment refund nowIso u input d) \<noteq> Inl (TRPCError CONFLICT)
        \<and> snd (refundPayment refund nowIso u input d) = d)
   \<and> (refundPayment refund nowIso u input d = (Inr r, d')
    \<longrightarrow> (\<exists>q\<in>set (payments d). payment_id q = rf_paymentId input
               \<and> payment_userId q = user_id u \<and> pay_status q = COMPLETED))"
proof (rule conjI; rule impI)
  assume a: "distinct (map payment_id (payments d)) \<and> p \<in> set (payments d)
      \<and> pay_status p \<noteq> COMPLETED \<and> rf_paymentId input = payment_id p"
  have "find (\<lambda>p. payment_id p = rf_paymentId input \<and> payment_userId p = user_id u
                      \<and> pay_status p = COMPLETED) (payments d) = None"
  proof (rule ccontr)
    assume "find (\<lambda>p. payment_id p = rf_paymentId input \<and> payment_userId p = user_id u
                      \<and> pay_status p = COMPLETED) (payments d) \<noteq> None"
    then obtain q where q: "q \<in> set (payments d)" "payment_id q = rf_paymentId input"
        "pay_status q = COMPLETED"
      by (auto simp: find_None_iff)
    with a have "q = p" by (intro distinct_key_eq [of payment_id "payments d"]) auto
    with q a show False by simp
  qed
  then show "refundPayment_try refund nowIso u input d = (Inl (TRPCError NOT_FOUND), d)
        \<and> isl (fst (refundPayment refund nowIso u input d))
        \<and> fst (refundPayment refund nowIso u input d) \<noteq> Inl (TRPCError CONFLICT)
        \<and> snd (refundPayment refund nowIso u input d) = d"
    by (rule refundPayment_not_found)
next
  assume "refundPayment refund nowIso u input d = (Inr r, d')"
  then obtain q where "find (\<lambda>p. payment_id p = rf_paymentId input \<and> payment_userId p = user_id u
                      \<and> pay_status p = COMPLETED) (payments d) = Some q"
    by (auto simp: refundPayment_def refundPayment_try_def catch_all_def split: option.splits)
  then show "\<exists>q\<in>set (payments d). payment_id q = rf_paymentId input
               \<and> payment_userId q = user_id u \<and> pay_status q = COMPLETED"
    by (auto simp: find_Some_iff)
qed

text \<open>
  The claim as stated fails: refunding the PENDING payment \<open>pay1\<close> is rejected by the
  handler as \<open>NOT_FOUND\<close>, and the call does not fail with a conflict error.
\<close>

theorem refundPayment_conflict_counterexample:
  "refundPayment_try (Some ex_refund) ex_now ex_ctx1 (ex_refund_input ''pay1'') ex_db
     = (Inl (TRPCError NOT_FOUND), ex_db)
   \<and> fst (refundPayment (Some ex_refund) ex_now ex_ctx1 (ex_refund_input ''pay1'') ex_db)
     \<noteq> Inl (TRPCError CONFLICT)
   \<and> map pay_status (payments ex_db) = [PENDING, COMPLETED, REFUNDED]"
  by (simp add: pay_defs ex_defs ex_pay_defs)

theorem refundPayment_only_from_completed_witness:
  "refundPayment_try (Some ex_refund) ex_now ex_ctx1 (ex_refund_input ''pay1'') ex_db
     = (Inl (TRPCError NOT_FOUND), ex_db)
   \<and> isl (fst (refundPayment (Some ex_refund) ex_now ex_ctx1 (ex_refund_input ''pay1'') ex_db))
   \<and> snd (refundPayment (Some ex_refund) ex_now ex_ctx1 (ex_refund_input ''pay1'') ex_db) = ex_db
   \<and> refundPayment_try (Some ex_refund) ex_now ex_ctx1 (ex_refund_input ''pay3'') ex_db
     = (Inl (TRPCError NOT_FOUND), ex_db)
   \<and> isl (fst (refundPayment (Some ex_refund) ex_now ex_ctx1 (ex_refund_input ''pay3'') ex_db))
   \<and> snd (refundPayment (Some ex_refund) ex_now ex_ctx1 (ex_refund_input ''pay3'') ex_db) = ex_db
   \<and> fst (refundPayment (Some ex_refund) ex_now ex_ctx1 (ex_refund_input ''pay2'') ex_db)
     = Inr \<lparr>rr_refundId = ''re_1'', rr_amount = 40, rr_status = Some ''succeeded''\<rparr>
   \<and> map pay_status (payments
         (snd (refundPayment (Some ex_refund) ex_now ex_ctx1 (ex_refund_input ''pay2'') ex_db)))
     = [PENDING, REFUNDED, REFUNDED]
   \<and> (\<exists>q\<in>set (payments ex_db). payment_id q = ''pay2'' \<and> payment_userId q = ''u1''
          \<and> pay_status q = COMPLETED)"
proof -
  have d: "distinct (map payment_id (payments ex_db))"
    by (simp add: ex_defs)
  have p1: "ex_payments ! 0 \<in> set (payments ex_db) \<and> pay_status (ex_payments ! 0) \<noteq> COMPLETED
            \<and> rf_paymentId (ex_refund_input ''pay1'') = payment_id (ex_payments ! 0)"
    by (simp add: ex_defs ex_pay_defs)
  have p3: "ex_payments ! 2 \<in> set (payments ex_db) \<and> pay_status (ex_payments ! 2) \<noteq> COMPLETED
            \<and> rf_paymentId (ex_refund_input ''pay3'') = payment_id (ex_payments ! 2)"
    by (simp add: ex_defs ex_pay_defs)
  have ok: "fst (refundPayment (Some ex_refund) ex_now ex_ctx1 (ex_refund_input ''pay2'') ex_db)
     = Inr \<lparr>rr_refundId = ''re_1'', rr_amount = 40, rr_status = Some ''succeeded''\<rparr>"
    by (simp add: pay_defs ex_defs ex_pay_defs)
  then have ok': "refundPayment (Some ex_refund) ex_now ex_ctx1 (ex_refund_input ''pay2'') ex_db
     = (Inr \<lparr>rr_refundId = ''re_1'', rr_amount = 40, rr_status = Some ''succeeded''\<rparr>,
        snd (refundPayment (Some ex_refund) ex_now ex_ctx1 (ex_refund_input ''pay2'') ex_db))"
    by (simp add: prod_eq_iff)
  have st: "map pay_status (payments
         (snd (refundPayment (Some ex_refund) ex_now ex_ctx1 (ex_refund_input ''pay2'') ex_db)))
     = [PENDING, REFUNDED, REFUNDED]"
    by (simp add: pay_defs ex_defs ex_pay_defs)
  have a: "refundPayment_try (Some ex_refund) ex_now ex_ctx1 (ex_refund_input ''pay1'') ex_db
     = (Inl (TRPCError NOT_FOUND), ex_db)
   \<and> isl (fst (refundPayment (Some ex_refund) ex_now ex_ctx1 (ex_refund_input ''pay1'') ex_db))
   \<and> snd (refundPayment (Some ex_refund) ex_now ex_ctx1 (ex_refund_input ''pay1'') ex_db) = ex_db"
    using refundPayment_only_from_completed
      [where d = ex_db and p = "ex_payments ! 0" and input = "ex_refund_input ''pay1''"
         and refund = "Some ex_refund" and nowIso = ex_now and u = ex_ctx1] d p1
    by blast
  have b: "refundPayment_try (Some ex_refund) ex_now ex_ctx1 (ex_refund_input ''pay3'') ex_db
     = (Inl (TRPCError NOT_FOUND), ex_db)
   \<and> isl (fst (refundPayment (Some ex_refund) ex_now ex_ctx1 (ex_refund_input ''pay3'') ex_db))
   \<and> snd (refundPayment (Some ex_refund) ex_now ex_ctx1 (ex_refund_input ''pay3'') ex_db) = ex_db"
    using refundPayment_only_from_completed
      [where d = ex_db and p = "ex_payments ! 2" and input = "ex_refund_input ''pay3''"
         and refund = "Some ex_refund" and nowIso = ex_now and u = ex_ctx1] d p3
    by blast
  have c: "\<exists>q\<in>set (payments ex_db). payment_id q = ''pay2'' \<and> payment_userId q = ''u1''
          \<and> pay_status q = COMPLETED"
    using refundPayment_only_from_completed
      [where d = ex_db and input = "ex_refund_input ''pay2''"
         and refund = "Some ex_refund" and nowIso = ex_now and u = ex_ctx1
         and r = "\<lparr>rr_refundId = ''re_1'', rr_amount = 40, rr_status = Some ''succeeded''\<rparr>"
         and d' = "snd (refundPayment (Some ex_refund) ex_now ex_ctx1 (ex_refund_input ''pay2'') ex_db)"]
      ok'
    by (simp add: ex_ctx1_def ex_refund_input_def)
  from a b ok st c show ?thesis by simp
qed

subsection \<open>Confirmation\<close>

text \<open>
  C5. When the provider reports a status other than \<open>succeeded\<close>, the \<open>try\<close> block
  throws \<open>BAD_REQUEST\<close> and writes nothing, but the resolver's own \<open>catch\<close> block
  replaces the error: the caller of \<open>confirmPayment\<close> gets \<open>INTERNAL_SERVER_ERROR\<close>. The
  payment stays PENDING.
\<close>

theorem confirmPayment_provider_failure:
  "confirmPayment (Some (ex_intent ''pi_1'' ''requires_payment_method'')) ex_now ex_ctx1
       ex_confirm_input ex_db
     = (Inl (TRPCError INTERNAL_SERVER_ERROR), ex_db)
   \<and> confirmPayment_try (Some (ex_intent ''pi_1'' ''requires_payment_method'')) ex_now ex_ctx1
       ex_confirm_input ex_db
     = (Inl (TRPCError BAD_REQUEST), ex_db)
   \<and> map pay_status (payments ex_db) = [PENDING, COMPLETED, REFUNDED]"
  by (simp add: pay_defs ex_defs ex_pay_defs)

lemma updateSessionCost_map:
  assumes "distinct (map session_id (sessions d))"
      and "[] \<notin> set (map session_id (sessions d))"
      and "\<forall>sid. sessionId p = Some sid \<longrightarrow> sid \<in> set (map session_id (sessions d))"
  shows "updateSessionCost p d =
           Inr (d\<lparr>sessions := map (\<lambda>s. if sessionId p = Some (session_id s)
                                         then s\<lparr>cost := Some (amount p)\<rparr> else s) (sessions d)\<rparr>)"
proof (cases "sessionId p")
  case None
  then show ?thesis by (simp add: updateSessionCost_def truthy_def)
next
  case (Some sid)
  with assms(3) have "sid \<in> set (map session_id (sessions d))" by simp
  then obtain x where x: "x \<in> set (sessions d)" "session_id x = sid" by auto
  with assms(2) have ne: "sid \<noteq> []" by force
  from find_key [OF x(1), of session_id] x(2) obtain y where
    y: "find (\<lambda>z. session_id z = sid) (sessions d) = Some y" "session_id y = sid"
    by auto
  have "update_first (\<lambda>z. session_id z = sid) (\<lambda>s. s\<lparr>cost := Some (amount p)\<rparr>) (sessions d)
        = Some (y\<lparr>cost := Some (amount p)\<rparr>,
                map (\<lambda>s. if session_id s = session_id y then s\<lparr>cost := Some (amount p)\<rparr> else s)
                  (sessions d))"
    by (rule update_first_map [OF y(1) assms(1)])
  moreover have "map (\<lambda>s. if session_id s = session_id y then s\<lparr>cost := Some (amount p)\<rparr> else s)
                   (sessions d)
               = map (\<lambda>s. if sid = session_id s then s\<lparr>cost := Some (amount p)\<rparr> else s)
                   (sessions d)"
    using y(2) by auto
  ultimately show ?thesis
    by (simp add: updateSessionCost_def truthy_def Some ne)
qed

lemma updateBookingCost_map:
  assumes "distinct (map booking_id (bookings d))"
      and "[] \<notin> set (map booking_id (bookings d))"
      and "\<forall>bid. bookingId p = Some bid \<longrightarrow> bid \<in> set (map booking_id (bookings d))"
  shows "updateBookingCost p d =
           Inr (d\<lparr>bookings := map (\<lambda>b. if bookingId p = Some (booking_id b)
                                         then b\<lparr>totalCost := Some (amount p)\<rparr> else b) (bookings d)\<rparr>)"
proof (cases "bookingId p")
  case None
  then show ?thesis by (simp add: updateBookingCost_def truthy_def)
next
  case (Some bid)
  with assms(3) have "bid \<in> set (map booking_id (bookings d))" by simp
  then obtain x where x: "x \<in> set (bookings d)" "booking_id x = bid" by auto
  with assms(2) have ne: "bid \<noteq> []" by force
  from find_key [OF x(1), of booking_id] x(2) obtain y where
    y: "find (\<lambda>z. booking_id z = bid) (bookings d) = Some y" "booking_id y = bid"
    by auto
  have "update_first (\<lambda>z. booking_id z = bid) (\<lambda>b. b\<lparr>totalCost := Some (amount p)\<rparr>) (bookings d)
        = Some (y\<lparr>totalCost := Some (amount p)\<rparr>,
                map (\<lambda>b. if booking_id b = booking_id y then b\<lparr>totalCost := Some (amount p)\<rparr> else b)
                  (bookings d))"
    by (rule update_first_map [OF y(1) assms(1)])
  moreover have "map (\<lambda>b. if booking_id b = booking_id y then b\<lparr>totalCost := Some (amount p)\<rparr> else b)
                   (bookings d)
               = map (\<lambda>b. if bid = booking_id b then b\<lparr>totalCost := Some (amount p)\<rparr> else b)
                   (bookings d)"
    using y(2) by auto
  ultimately show ?thesis
    by (simp add: updateBookingCost_def truthy_def Some ne)
qed

text \<open>
  C6. When the provider reports \<open>succeeded\<close> and the lookup by provider reference (and
  caller) finds the payment \<open>p\<close>, then, in a database whose keys are unique and
  non-empty and where the payment's session and booking references resolve,
  \<open>confirmPayment\<close> answers with \<open>p\<close>'s id, COMPLETED and \<open>p\<close>'s amount; \<open>p\<close> becomes
  COMPLETED; the session \<open>p\<close> refers to, if any, gets \<open>cost = amount p\<close>; the booking \<open>p\<close>
  refers to, if any, gets \<open>totalCost = amount p\<close>; every other payment, session and
  booking, and every other table, is unchanged.
\<close>

theorem confirmPayment_success:
  assumes "intent_status paymentIntent = ''succeeded''"
      and "find (\<lambda>q. stripePaymentId q = Some (paymentIntentId input)
                      \<and> payment_userId q = user_id u) (payments d) = Some p"
      and "distinct (map payment_id (payments d))"
      and "distinct (map session_id (sessions d))" and "[] \<notin> set (map session_id (sessions d))"
      and "distinct (map booking_id (bookings d))" and "[] \<notin> set (map booking_id (bookings d))"
      and "\<forall>sid. sessionId p = Some sid \<longrightarrow> sid \<in> set (map session_id (sessions d))"
      and "\<forall>bid. bookingId p = Some bid \<longrightarrow> bid \<in> set (map booking_id (bookings d))"
  shows "confirmPayment (Some paymentIntent) nowIso u input d =
           (Inr \<lparr>cf_paymentId = payment_id p, cf_status = COMPLETED, cf_amount = amount p\<rparr>,
            d\<lparr>payments :=
                 map (\<lambda>q. if payment_id q = payment_id p
                          then q\<lparr>pay_status := COMPLETED,
                                 metadata := [(''paymentMethodId'', MStr (paymentMethodId input)),
                                              (''confirmedAt'', MStr nowIso)]\<rparr>
                          else q) (payments d),
               sessions :=
                 map (\<lambda>s. if sessionId p = Some (session_id s)
                          then s\<lparr>cost := Some (amount p)\<rparr> else s) (sessions d),
               bookings :=
                 map (\<lambda>b. if bookingId p = Some (booking_id b)
                          then b\<lparr>totalCost := Some (amount p)\<rparr> else b) (bookings d)\<rparr>)"
proof -
  let ?f = "\<lambda>q. q\<lparr>pay_status := COMPLETED,
                    metadata := [(''paymentMethodId'', MStr (paymentMethodId input)),
                                 (''confirmedAt'', MStr nowIso)]\<rparr>"
  let ?ps = "map (\<lambda>q. if payment_id q = payment_id p then ?f q else q) (payments d)"
  let ?d1 = "d\<lparr>payments := ?ps\<rparr>"
  let ?ss = "map (\<lambda>s. if sessionId p = Some (session_id s)
                          then s\<lparr>cost := Some (amount p)\<rparr> else s) (sessions d)"
  let ?d2 = "?d1\<lparr>sessions := ?ss\<rparr>"
  have up: "update_first (\<lambda>q. stripePaymentId q = Some (paymentIntentId input)
                      \<and> payment_userId q = user_id u) ?f (payments d) = Some (?f p, ?ps)"
    by (rule update_first_map [OF assms(2) assms(3)])
  have s: "updateSessionCost (?f p) ?d1 = Inr ?d2"
    using updateSessionCost_map [of ?d1 "?f p"] assms(4,5,8) by simp
  have b: "updateBookingCost (?f p) ?d2 =
             Inr (?d2\<lparr>bookings := map (\<lambda>b. if bookingId p = Some (booking_id b)
                          then b\<lparr>totalCost := Some (amount p)\<rparr> else b) (bookings d)\<rparr>)"
    using updateBookingCost_map [of ?d2 "?f p"] assms(6,7,9) by simp
  show ?thesis
    unfolding confirmPayment_def confirmPayment_try_def
    by (simp add: assms(1) up s b catch_all_def Let_def)
qed

theorem confirmPayment_success_witness:
  "fst (confirmPayment (Some (ex_intent ''pi_1'' ''succeeded'')) ex_now ex_ctx1 ex_confirm_input ex_db)
     = Inr \<lparr>cf_paymentId = ''pay1'', cf_status = COMPLETED, cf_amount = 25\<rparr>
   \<and> map pay_status (payments
         (snd (confirmPayment (Some (ex_intent ''pi_1'' ''succeeded'')) ex_now ex_ctx1 ex_confirm_input ex_db)))
     = [COMPLETED, COMPLETED, REFUNDED]
   \<and> map cost (sessions
         (snd (confirmPayment (Some (ex_intent ''pi_1'' ''succeeded'')) ex_now ex_ctx1 ex_confirm_input ex_db)))
     = [Some 25, Some 4]
   \<and> map totalCost (bookings
         (snd (confirmPayment (Some (ex_intent ''pi_1'' ''succeeded'')) ex_now ex_ctx1 ex_confirm_input ex_db)))
     = [Some 25, Some 7]"
proof -
  have 1: "intent_status (ex_intent ''pi_1'' ''succeeded'') = ''succeeded''"
    by (simp add: ex_intent_def)
  have 2: "find (\<lambda>q. stripePaymentId q = Some (paymentIntentId ex_confirm_input)
                      \<and> payment_userId q = user_id ex_ctx1) (payments ex_db) = Some (ex_payments ! 0)"
    by (simp add: ex_defs ex_pay_defs)
  have 3: "distinct (map payment_id (payments ex_db))"
    and 4: "distinct (map session_id (sessions ex_db))"
    and 5: "[] \<notin> set (map session_id (sessions ex_db))"
    and 6: "distinct (map booking_id (bookings ex_db))"
    and 7: "[] \<notin> set (map booking_id (bookings ex_db))"
    by (simp_all add: ex_defs)
  have 8: "\<forall>sid. sessionId (ex_payments ! 0) = Some sid \<longrightarrow> sid \<in> set (map session_id (sessions ex_db))"
    and 9: "\<forall>bid. bookingId (ex_payments ! 0) = Some bid \<longrightarrow> bid \<in> set (map booking_id (bookings ex_db))"
    by (simp_all add: ex_defs)
  show ?thesis
    unfolding confirmPayment_success [OF 1 2 3 4 5 6 7 8 9]
    by (simp add: ex_defs)
qed

subsection \<open>Tenant isolation\<close>

text \<open>
  C1. \<open>getById\<close> and \<open>updatePortStatus\<close> are \<open>protectedProcedure\<close>s that look rows up by
  id alone. A request with the token of user \<open>u1\<close> of tenant \<open>T1\<close> reads station \<open>st2\<close>
  of tenant \<open>T2\<close> with its ports and sessions, and sets port \<open>p3\<close> of that station from
  OCCUPIED to AVAILABLE.
\<close>

theorem cross_tenant_station_access:
  "authMiddleware None 2000 (Some ex_token) ex_db = Inr ex_ctx1
   \<and> protectedProcedure getById None 2000 (Some ex_token) ''st2'' ex_db
     = (Inr \<lparr>details_station = ex_stations ! 1,
             details_chargingPorts =
               [\<lparr>the_port = ex_ports ! 2, port_sessions = [ex_sessions ! 1]\<rparr>]\<rparr>, ex_db)
   \<and> station_tenantId (ex_stations ! 1) = ''T2''
   \<and> protectedProcedure updatePortStatus None 2000 (Some ex_token) (''p3'', AVAILABLE) ex_db
     = (Inr ((ex_ports ! 2)\<lparr>port_status := AVAILABLE\<rparr>),
        ex_db\<lparr>chargingPorts := [ex_ports ! 0, ex_ports ! 1, (ex_ports ! 2)\<lparr>port_status := AVAILABLE\<rparr>]\<rparr>)
   \<and> port_stationId (ex_ports ! 2) = ''st2'' \<and> port_status (ex_ports ! 2) = OCCUPIED"
proof -
  have a: "authMiddleware None 2000 (Some ex_token) ex_db = Inr ex_ctx1"
    by (simp add: authMiddleware_def verifyJWT_def signJWT_def jwt_verify_def jwt_sign_def
          ex_token_def ex_defs)
  have g: "getById ex_ctx1 ''st2'' ex_db
     = (Inr \<lparr>details_station = ex_stations ! 1,
             details_chargingPorts =
               [\<lparr>the_port = ex_ports ! 2, port_sessions = [ex_sessions ! 1]\<rparr>]\<rparr>, ex_db)"
    by (simp add: getById_def includeChargingPorts_def ex_defs)
  have u: "updatePortStatus ex_ctx1 (''p3'', AVAILABLE) ex_db
     = (Inr ((ex_ports ! 2)\<lparr>port_status := AVAILABLE\<rparr>),
        ex_db\<lparr>chargingPorts := [ex_ports ! 0, ex_ports ! 1, (ex_ports ! 2)\<lparr>port_status := AVAILABLE\<rparr>]\<rparr>)"
    by (simp add: updatePortStatus_def ex_defs)
  have r: "station_tenantId (ex_stations ! 1) = ''T2''" "port_stationId (ex_ports ! 2) = ''st2''"
    "port_status (ex_ports ! 2) = OCCUPIED"
    by (simp_all add: ex_defs)
  show ?thesis
    using g u r by (simp add: protectedProcedure_def a)
qed

lemma map_of_update_tenant:
  "map_of (AList.update ''tenantId'' tid w) k = (if k = ''tenantId'' then Some tid else map_of w k)"
  by (simp add: update_conv')

lemma matches_tenant:
  assumes "matches (Some (AList.update ''tenantId'' tid w)) r"
  shows "map_of r ''tenantId'' = Some tid"
proof -
  have "(''tenantId'', tid) \<in> set (AList.update ''tenantId'' tid w)"
    by (induction w) auto
  with assms show ?thesis
    by (auto simp: matches_def list_all_iff)
qed

text \<open>
  C2 (as amended). Through the proxy, each of the methods \<open>findMany\<close>, \<open>findFirst\<close>,
  \<open>findUnique\<close>, \<open>count\<close> and \<open>aggregate\<close> runs with a filter whose \<open>tenantId\<close> is the
  caller's, whatever \<open>tenantId\<close> the caller supplied, with the other properties of the
  filter and the rest of the arguments as given; so \<open>findMany\<close> returns only rows of the
  caller's tenant. Every other method, the writes included, is the original method
  with the caller's arguments unchanged.
\<close>

theorem tenantProxy_scopes_reads_only:
  "(modelProp \<in> set READ_METHODS \<longrightarrow>
      tenantProxy tid modelTarget modelProp args = modelTarget modelProp (addTenantFilter tid args)
      \<and> (\<exists>w. whereArg (addTenantFilter tid args) = Some w
             \<and> map_of w ''tenantId'' = Some tid
             \<and> (\<forall>k. k \<noteq> ''tenantId'' \<longrightarrow>
                    map_of w k = (case whereArg args of None \<Rightarrow> None | Some w0 \<Rightarrow> map_of w0 k)))
      \<and> dataArg (addTenantFilter tid args) = dataArg args)
   \<and> (modelProp \<notin> set READ_METHODS \<longrightarrow>
        tenantProxy tid modelTarget modelProp args = modelTarget modelProp args)
   \<and> (tenantProxy tid prismaModel ''findMany'' args t = (Inr (Rows rs), t') \<longrightarrow>
        t' = t \<and> (\<forall>r\<in>set rs. r \<in> set t \<and> map_of r ''tenantId'' = Some tid))"
proof (intro conjI impI)
  show "\<exists>w. whereArg (addTenantFilter tid args) = Some w
             \<and> map_of w ''tenantId'' = Some tid
             \<and> (\<forall>k. k \<noteq> ''tenantId'' \<longrightarrow>
                    map_of w k = (case whereArg args of None \<Rightarrow> None | Some w0 \<Rightarrow> map_of w0 k))"
    by (cases "whereArg args") (simp_all add: addTenantFilter_def map_of_update_tenant)
next
  assume "modelProp \<in> set READ_METHODS"
  then show "tenantProxy tid modelTarget modelProp args = modelTarget modelProp (addTenantFilter tid args)"
    by (simp add: tenantProxy_def)
next
  show "dataArg (addTenantFilter tid args) = dataArg args"
    by (cases "whereArg args") (simp_all add: addTenantFilter_def)
next
  assume "modelProp \<notin> set READ_METHODS"
  then show "tenantProxy tid modelTarget modelProp args = modelTarget modelProp args"
    by (simp add: tenantProxy_def)
next
  assume a: "tenantProxy tid prismaModel ''findMany'' args t = (Inr (Rows rs), t')"
  then show "t' = t"
    by (simp add: tenantProxy_def READ_METHODS_def prismaModel_def)
  from a have rs: "rs = filter (matches (whereArg (addTenantFilter tid args))) t"
    by (auto simp: tenantProxy_def READ_METHODS_def prismaModel_def)
  have "\<And>r. matches (whereArg (addTenantFilter tid args)) r \<Longrightarrow> map_of r ''tenantId'' = Some tid"
  proof (cases "whereArg args")
    case None
    fix r assume "matches (whereArg (addTenantFilter tid args)) r"
    with None show "map_of r ''tenantId'' = Some tid"
      by (simp add: addTenantFilter_def matches_def)
  next
    case (Some w)
    fix r assume "matches (whereArg (addTenantFilter tid args)) r"
    with Some show "map_of r ''tenantId'' = Some tid"
      by (simp add: addTenantFilter_def matches_tenant)
  qed
  with rs show "\<forall>r\<in>set rs. r \<in> set t \<and> map_of r ''tenantId'' = Some tid"
    by simp
qed

text \<open>
  The claim as stated fails for writes: through the proxy of tenant \<open>T1\<close>, an \<open>update\<close>
  by id changes a row of tenant \<open>T2\<close> and returns it; and when the caller's own filter
  carries \<open>tenantId = T1\<close>, the \<open>update\<close> fails with the storage client's
  record-not-found error, not with an authorization error.
\<close>

theorem tenantProxy_write_counterexample:
  "tenantProxy ''T1'' prismaModel ''update''
      \<lparr>whereArg = Some [(''id'', ''st2'')], dataArg = [(''name'', ''Taken'')]\<rparr> ex_rows
     = (Inr (Row (Some [(''id'', ''st2''), (''tenantId'', ''T2''), (''name'', ''Taken'')])),
        [[(''id'', ''st1''), (''tenantId'', ''T1''), (''name'', ''Downtown'')],
         [(''id'', ''st2''), (''tenantId'', ''T2''), (''name'', ''Taken'')]])
   \<and> tenantProxy ''T1'' prismaModel ''update''
      \<lparr>whereArg = Some [(''id'', ''st2''), (''tenantId'', ''T1'')], dataArg = [(''name'', ''Taken'')]\<rparr> ex_rows
     = (Inl PrismaRecordNotFound, ex_rows)"
  by (simp add: tenantProxy_def READ_METHODS_def prismaModel_def matches_def assign_def ex_rows_def)

theorem tenantProxy_scopes_reads_only_witness:
  "tenantProxy ''T1'' prismaModel ''findMany'' \<lparr>whereArg = Some [(''tenantId'', ''T2'')], dataArg = []\<rparr> ex_rows
     = prismaModel ''findMany'' \<lparr>whereArg = Some [(''tenantId'', ''T1'')], dataArg = []\<rparr> ex_rows
   \<and> tenantProxy ''T1'' prismaModel ''findMany'' \<lparr>whereArg = Some [(''tenantId'', ''T2'')], dataArg = []\<rparr> ex_rows
     = (Inr (Rows [[(''id'', ''st1''), (''tenantId'', ''T1''), (''name'', ''Downtown'')]]), ex_rows)
   \<and> tenantProxy ''T1'' prismaModel ''delete'' \<lparr>whereArg = Some [(''id'', ''st2'')], dataArg = []\<rparr> ex_rows
     = prismaModel ''delete'' \<lparr>whereArg = Some [(''id'', ''st2'')], dataArg = []\<rparr> ex_rows
   \<and> [(''id'', ''st1''), (''tenantId'', ''T1''), (''name'', ''Downtown'')] \<in> set ex_rows
   \<and> map_of [(''id'', ''st1''), (''tenantId'', ''T1''), (''name'', ''Downtown'')] ''tenantId'' = Some ''T1''"
proof -
  have rd: "''findMany'' \<in> set READ_METHODS" and wr: "''delete'' \<notin> set READ_METHODS"
    by (simp_all add: READ_METHODS_def)
  have f: "addTenantFilter ''T1'' \<lparr>whereArg = Some [(''tenantId'', ''T2'')], dataArg = []\<rparr>
           = \<lparr>whereArg = Some [(''tenantId'', ''T1'')], dataArg = []\<rparr>"
    by (simp add: addTenantFilter_def)
  have e: "prismaModel ''findMany'' \<lparr>whereArg = Some [(''tenantId'', ''T1'')], dataArg = []\<rparr> ex_rows
     = (Inr (Rows [[(''id'', ''st1''), (''tenantId'', ''T1''), (''name'', ''Downtown'')]]), ex_rows)"
    by (simp add: prismaModel_def matches_def ex_rows_def)
  note t1 = tenantProxy_scopes_reads_only
      [where modelProp = "''findMany''" and tid = "''T1''" and modelTarget = prismaModel
         and args = "\<lparr>whereArg = Some [(''tenantId'', ''T2'')], dataArg = []\<rparr>" and t = ex_rows
         and rs = "[[(''id'', ''st1''), (''tenantId'', ''T1''), (''name'', ''Downtown'')]]"
         and t' = ex_rows]
  note t2 = tenantProxy_scopes_reads_only
      [where modelProp = "''delete''" and tid = "''T1''" and modelTarget = prismaModel
         and args = "\<lparr>whereArg = Some [(''id'', ''st2'')], dataArg = []\<rparr>"]
  from t1 rd f have p1: "tenantProxy ''T1'' prismaModel ''findMany''
        \<lparr>whereArg = Some [(''tenantId'', ''T2'')], dataArg = []\<rparr>
      = prismaModel ''findMany'' \<lparr>whereArg = Some [(''tenantId'', ''T1'')], dataArg = []\<rparr>"
    by simp
  from t2 wr have p2: "tenantProxy ''T1'' prismaModel ''delete'' \<lparr>whereArg = Some [(''id'', ''st2'')], dataArg = []\<rparr>
     = prismaModel ''delete'' \<lparr>whereArg = Some [(''id'', ''st2'')], dataArg = []\<rparr>"
    by simp
  from t1 p1 e have p3: "\<forall>r\<in>set [[(''id'', ''st1''), (''tenantId'', ''T1''), (''name'', ''Downtown'')]].
         r \<in> set ex_rows \<and> map_of r ''tenantId'' = Some ''T1''"
    by simp
  from p1 p2 p3 e show ?thesis by simp
qed

subsection \<open>The nearby query\<close>

text \<open>
  C7. \<open>findNearby\<close> returns no stations at all: its raw query is rejected by the
  database for every query point, radius and set of stations, and the resolver fails
  with the storage client's error. So the station at (37.7749, -122.4194) is not
  returned for a query from (37.7849, -122.4094) with radius 10.
\<close>

theorem findNearby_query_rejected:
  "findNearby u input d = Inl PrismaRawQueryFailed"
  by (simp add: findNearby_def queryNearby_def)

theorem findNearby_query_rejected_witness:
  "findNearby ex_ctx1 ex_sf_input ex_sf_db = Inl PrismaRawQueryFailed
   \<and> ex_sf_station \<in> set (stations ex_sf_db) \<and> is_active ex_sf_station
   \<and> latitude ex_sf_station = 37.7749 \<and> longitude ex_sf_station = - 122.4194
   \<and> in_latitude ex_sf_input = 37.7849 \<and> in_longitude ex_sf_input = - 122.4094
   \<and> radius ex_sf_input = 10"
  using findNearby_query_rejected [of ex_ctx1 ex_sf_input ex_sf_db]
  by (simp add: ex_sf_db_def ex_sf_station_def ex_sf_input_def)

end
